theory Spec2Isabelle
  imports Main "HOL-Library.Word"
begin

section \<open>Client side: SessionState (src/client/sessionstate.cpp)\<close>

subsection \<open>Protocol messages\<close>

type_synonym byte = "8 word"

text \<open>
  Raster(session_id, offset, length, size, data). The messages are declared in protocol.h,
  which is not among the files modelled here; \<open>offset\<close>, \<open>length\<close> and \<open>size\<close> are taken
  as unsigned 32-bit fields, so that \<open>offset + length < size\<close> is a comparison of unsigned
  values and the sum wraps. \<open>length\<close> and \<open>size\<close> carry a prime because the plain names
  are HOL constants.
\<close>

record Raster =
  session_id :: byte
  offset :: "32 word"
  length' :: "32 word"
  size' :: "32 word"
  data :: "byte list"

text \<open>
  The three drawing messages. Colours are the four-byte arrays \<open>lo_color[4]\<close>,
  \<open>hi_color[4]\<close> of the source (red, green, blue, opacity).
\<close>

record ToolInfo =
  ti_user_id :: byte
  lo_color :: "byte \<times> byte \<times> byte \<times> byte"
  hi_color :: "byte \<times> byte \<times> byte \<times> byte"
  lo_size :: byte
  hi_size :: byte
  lo_hardness :: byte
  hi_hardness :: byte

record StrokeInfo =
  si_user_id :: byte
  si_x :: "16 word"
  si_y :: "16 word"
  si_pressure :: byte

record StrokeEnd =
  se_user_id :: byte

text \<open>
  \<open>protocol::Message*\<close> as it is stored in \<open>drawbuffer\<close>: only the three drawing handlers
  enqueue, so the queue holds one of these three; the constructor is the \<open>type\<close> tag.
\<close>

datatype Message =
  MToolInfo ToolInfo
| MStrokeInfo StrokeInfo
| MStrokeEnd StrokeEnd

datatype msg_type = TSyncWait | TSessionSelect | TRaster | TOther nat

record Acknowledgement =
  ack_event :: msg_type

datatype user_event = Join | Leave | Disconnect | BrokenPipe | TimedOut | Dropped | Kicked
  | OtherUserEvent nat

record UserInfo =
  ui_user_id :: byte
  ui_event :: user_event
  ui_mode :: byte
  ui_name :: string

datatype session_action = Lock | Unlock | Kick | Delegate | OtherAction nat

record SessionEvent =
  sev_action :: session_action
  sev_target :: byte

record Chat =
  chat_user_id :: byte
  chat_text :: string

text \<open>
  What the handlers use of the headers protocol.flags.h, protocol.h and templates.h, which
  are not among the files modelled here: the flag \<open>user_mode::Locked\<close>, the id \<open>null_user\<close>
  and the test \<open>fIsSet\<close>. They are parameters of the model.
\<close>

record protocol_consts =
  user_mode_Locked :: byte
  null_user :: byte
  fIsSet :: "byte \<Rightarrow> byte \<Rightarrow> bool"

subsection \<open>Signals and other effects\<close>

text \<open>
  A brush and a point as the handlers build them. The source divides hardness, opacity and
  pressure by 255.0; the model keeps the byte (the numerator), which determines the value.
\<close>

record Brush =
  radius1 :: byte
  hardness1 :: byte
  opacity1 :: byte
  color1 :: "byte \<times> byte \<times> byte"
  radius2 :: byte
  hardness2 :: byte
  opacity2 :: byte
  color2 :: "byte \<times> byte \<times> byte"

record Point =
  px :: int
  py :: int
  ppressure :: byte

datatype Signal =
  RasterReceived int
| RasterSent int
| ToolReceived int Brush
| StrokeReceived int Point
| StrokeEndReceived int
| SyncDone
| SyncRequest
| SyncWaitSignal
| UserJoined int
| UserLeft int
| UserLocked int bool
| SessionLocked bool
| UserKicked int
| OwnerChanged
| ChatMessage string string
| UserLimitChanged int

text \<open>
  The fields of the state are named as in the source without the trailing underscore
  (\<open>raster_\<close> is \<open>raster\<close>), which Isabelle does not accept in a name.
\<close>

text \<open>
  What a handler does besides changing fields: emit a signal, hand a message to the
  network (\<open>host_->net_->send\<close>), or free a queued message (\<open>delete msg\<close>). They are
  logged in the order they happen. \<open>qDebug\<close> output is not logged.
\<close>

datatype Effect =
  Emit Signal
| Send Raster
| DeleteMsg Message

subsection \<open>The state\<close>

record User =
  u_name :: string
  u_id :: int
  u_locked :: bool

record Session =
  s_id :: byte
  s_owner :: int
  s_maxusers :: int
  s_mode :: byte

record SessionState =
  info :: Session
  users :: "int \<rightharpoonup> User"
  raster :: "byte list"
  rasteroffset :: "32 word"
  lock :: bool
  bufferdrawing :: bool
  drawbuffer :: "Message list"
  usersessions :: "int \<rightharpoonup> byte"
  effects :: "Effect list"

definition emit :: "Signal \<Rightarrow> SessionState \<Rightarrow> SessionState" where
  "emit sg s = s\<lparr>effects := effects s @ [Emit sg]\<rparr>"

definition send :: "Raster \<Rightarrow> SessionState \<Rightarrow> SessionState" where
  "send m s = s\<lparr>effects := effects s @ [Send m]\<rparr>"

definition delete :: "Message \<Rightarrow> SessionState \<Rightarrow> SessionState" where
  "delete m s = s\<lparr>effects := effects s @ [DeleteMsg m]\<rparr>"

text \<open>The constructor: buffering is on, nothing is queued, no raster is stored.\<close>

definition SessionState_new ::
  "protocol_consts \<Rightarrow> string \<Rightarrow> int \<Rightarrow> (int \<rightharpoonup> byte) \<Rightarrow> Session \<Rightarrow> SessionState" where
  "SessionState_new P localname localid usess i =
     \<lparr>info = i,
      users = [localid \<mapsto>
        \<lparr>u_name = localname, u_id = localid, u_locked = fIsSet P (s_mode i) (user_mode_Locked P)\<rparr>],
      raster = [], rasteroffset = 0, lock = False, bufferdrawing = True,
      drawbuffer = [], usersessions = usess, effects = []\<rparr>"

definition update :: "SessionState \<Rightarrow> Session \<Rightarrow> SessionState" where
  "update s i =
     (let s1 = (if s_maxusers (info s) \<noteq> s_maxusers i
                then emit (UserLimitChanged (s_maxusers i)) s else s)
      in s1\<lparr>info := i\<rparr>)"

definition hasUser :: "SessionState \<Rightarrow> int \<Rightarrow> bool" where
  "hasUser s i = (users s i \<noteq> None)"

subsection \<open>Raster data\<close>

text \<open>
  \<open>QImage::loadFromData\<close> is Qt's decoder and a parameter here: \<open>None\<close> when the bytes do
  not decode. The result of \<open>sessionImage\<close> is \<open>None\<close> for the return value false, else the
  image put into the out parameter: the null image \<open>QImage()\<close> or a decoded one.
\<close>

datatype 'img QImage = NullImage | Loaded 'img

definition sessionImage ::
  "(byte list \<Rightarrow> 'img option) \<Rightarrow> SessionState \<Rightarrow> 'img QImage option" where
  "sessionImage loadFromData s =
     (if raster s = [] then Some NullImage
      else (case loadFromData (raster s) of
              None \<Rightarrow> None
            | Some img \<Rightarrow> Some (Loaded img)))"

definition isUploading :: "SessionState \<Rightarrow> bool" where
  "isUploading s = (length (raster s) > 0 \<and> rasteroffset s > 0)"

definition releaseRaster :: "SessionState \<Rightarrow> SessionState" where
  "releaseRaster s = s\<lparr>raster := []\<rparr>"

text \<open>\<open>raster_.length()\<close> converted to unsigned.\<close>

definition raster_length :: "SessionState \<Rightarrow> 32 word" where
  "raster_length s = of_nat (length (raster s))"

text \<open>
  \<open>sendRasterChunk\<close>. \<open>chunklen\<close> is an \<open>unsigned int\<close>, and so is \<open>rasteroffset_\<close>
  here (its declaration is in sessionstate.h, not among the files modelled here; the source compares
  \<open>rasteroffset_ + chunklen\<close> with \<open>unsigned(raster_.length())\<close>), so the sum and the
  difference wrap. The \<open>memcpy\<close> reads \<open>chunklen\<close> bytes at \<open>rasteroffset_\<close>: where that
  range leaves the buffer the source has no defined behaviour and the model returns \<open>None\<close>.
\<close>

definition sendRasterChunk :: "SessionState \<Rightarrow> SessionState option" where
  "sendRasterChunk s =
     (let chunklen0 = (1024 * 4 :: 32 word);
          chunklen = (if rasteroffset s + chunklen0 > raster_length s
                      then raster_length s - rasteroffset s else chunklen0)
      in if chunklen = 0 then Some (releaseRaster (s\<lparr>rasteroffset := 0\<rparr>))
         else if unat (rasteroffset s) + unat chunklen > length (raster s) then None
         else
           (let msg = \<lparr>session_id = s_id (info s), offset = rasteroffset s,
                       length' = chunklen, size' = raster_length s,
                       data = take (unat chunklen) (drop (unat (rasteroffset s)) (raster s))\<rparr>;
                s1 = s\<lparr>rasteroffset := rasteroffset s + chunklen\<rparr>;
                s2 = send msg s1
            in Some (emit (RasterSent (sint (100 * rasteroffset s2 div raster_length s2))) s2)))"

definition sendRaster :: "SessionState \<Rightarrow> byte list \<Rightarrow> SessionState option" where
  "sendRaster s bytes = sendRasterChunk (s\<lparr>raster := bytes, rasteroffset := 0\<rparr>)"

subsection \<open>Drawing commands and the draw buffer\<close>

definition brush_of :: "ToolInfo \<Rightarrow> Brush" where
  "brush_of msg =
     (case (hi_color msg, lo_color msg) of
        ((hr, hg, hb, ha), (lr, lg, lb, la)) \<Rightarrow>
          \<lparr>radius1 = hi_size msg, hardness1 = hi_hardness msg, opacity1 = ha,
           color1 = (hr, hg, hb),
           radius2 = lo_size msg, hardness2 = lo_hardness msg, opacity2 = la,
           color2 = (lr, lg, lb)\<rparr>)"

definition point_of :: "StrokeInfo \<Rightarrow> Point" where
  "point_of msg = \<lparr>px = sint (si_x msg), py = sint (si_y msg), ppressure = si_pressure msg\<rparr>"

text \<open>Each handler returns true when the message was buffered (the caller must not free it).\<close>

definition handleToolInfo :: "SessionState \<Rightarrow> ToolInfo \<Rightarrow> bool \<times> SessionState" where
  "handleToolInfo s msg =
     (if bufferdrawing s then (True, s\<lparr>drawbuffer := drawbuffer s @ [MToolInfo msg]\<rparr>)
      else (False, emit (ToolReceived (uint (ti_user_id msg)) (brush_of msg)) s))"

definition handleStrokeInfo :: "SessionState \<Rightarrow> StrokeInfo \<Rightarrow> bool \<times> SessionState" where
  "handleStrokeInfo s msg =
     (if bufferdrawing s then (True, s\<lparr>drawbuffer := drawbuffer s @ [MStrokeInfo msg]\<rparr>)
      else (False, emit (StrokeReceived (uint (si_user_id msg)) (point_of msg)) s))"

definition handleStrokeEnd :: "SessionState \<Rightarrow> StrokeEnd \<Rightarrow> bool \<times> SessionState" where
  "handleStrokeEnd s msg =
     (if bufferdrawing s then (True, s\<lparr>drawbuffer := drawbuffer s @ [MStrokeEnd msg]\<rparr>)
      else (False, emit (StrokeEndReceived (uint (se_user_id msg))) s))"

text \<open>
  The dispatch on \<open>msg->type\<close> in the body of the loop of \<open>flushDrawBuffer\<close>: StrokeInfo,
  then StrokeEnd, else ToolInfo. The receiving side calls the handler of the message's
  type in the same way.
\<close>

fun handleDrawing :: "SessionState \<Rightarrow> Message \<Rightarrow> bool \<times> SessionState" where
  "handleDrawing s (MStrokeInfo m) = handleStrokeInfo s m"
| "handleDrawing s (MStrokeEnd m) = handleStrokeEnd s m"
| "handleDrawing s (MToolInfo m) = handleToolInfo s m"

text \<open>
  The loop of \<open>flushDrawBuffer\<close>: dequeue the head, call its handler, free it, until the
  queue is empty. The handler may enqueue, so the loop is not structurally recursive on the
  queue; \<open>None\<close> stands for a loop that does not end.
\<close>

partial_function (option) drain :: "SessionState \<Rightarrow> SessionState option" where
  "drain s =
     (case drawbuffer s of
        [] \<Rightarrow> Some s
      | msg # rest \<Rightarrow>
          drain (delete msg (snd (handleDrawing (s\<lparr>drawbuffer := rest\<rparr>) msg))))"

definition flushDrawBuffer :: "SessionState \<Rightarrow> SessionState option" where
  "flushDrawBuffer s = drain (s\<lparr>bufferdrawing := False\<rparr>)"

text \<open>The signal a drawing message turns into when it is applied.\<close>

fun applied :: "Message \<Rightarrow> Signal" where
  "applied (MToolInfo m) = ToolReceived (uint (ti_user_id m)) (brush_of m)"
| "applied (MStrokeInfo m) = StrokeReceived (uint (si_user_id m)) (point_of m)"
| "applied (MStrokeEnd m) = StrokeEndReceived (uint (se_user_id m))"

text \<open>
  \<open>QByteArray(msg->data, msg->length)\<close>: the first \<open>length\<close> bytes of the data. The
  constructor takes the length as an \<open>int\<close>; for a length that is not positive as an
  \<open>int\<close> the array is empty.
\<close>

definition chunk :: "Raster \<Rightarrow> byte list" where
  "chunk msg =
     (if sint (length' msg) \<le> 0 then [] else take (nat (sint (length' msg))) (data msg))"

definition handleRaster :: "SessionState \<Rightarrow> Raster \<Rightarrow> SessionState option" where
  "handleRaster s msg =
     (if size' msg = 0 then flushDrawBuffer (emit (RasterReceived 100) s)
      else
        (let s1 = (if offset msg = 0 then s\<lparr>raster := []\<rparr> else s);
             s2 = s1\<lparr>raster := raster s1 @ chunk msg\<rparr>
         in if offset msg + length' msg < size' msg
            then Some (emit (RasterReceived
                   (sint (99 * (offset msg + length' msg) div size' msg))) s2)
            else flushDrawBuffer (emit (RasterReceived 100) s2)))"


subsection \<open>The other handlers of received messages\<close>

definition handleAck :: "SessionState \<Rightarrow> Acknowledgement \<Rightarrow> SessionState option" where
  "handleAck s msg =
     (if ack_event msg = TSyncWait then Some (emit SyncDone s)
      else if ack_event msg = TSessionSelect then Some s
      else if ack_event msg = TRaster then sendRasterChunk s
      else Some s)"

definition is_leave_event :: "user_event \<Rightarrow> bool" where
  "is_leave_event e =
     (e = Leave \<or> e = Disconnect \<or> e = BrokenPipe \<or> e = TimedOut \<or> e = Dropped \<or> e = Kicked)"

definition handleUserInfo :: "protocol_consts \<Rightarrow> SessionState \<Rightarrow> UserInfo \<Rightarrow> SessionState" where
  "handleUserInfo P s msg =
     (let uid = uint (ui_user_id msg) in
      if ui_event msg = Join then
        emit (UserJoined uid)
          (s\<lparr>users := (users s)(uid \<mapsto>
             \<lparr>u_name = ui_name msg, u_id = uid,
              u_locked = fIsSet P (ui_mode msg) (user_mode_Locked P)\<rparr>)\<rparr>)
      else if is_leave_event (ui_event msg) then
        (let s1 = (if hasUser s uid
                   then (emit (UserLeft uid) s)\<lparr>users := (users s)(uid := None)\<rparr>
                   else s)
         in s1\<lparr>usersessions := (usersessions s1)(uid := None)\<rparr>)
      else s)"

definition handleSynchronize :: "SessionState \<Rightarrow> SessionState" where
  "handleSynchronize s = emit SyncRequest s"

definition handleSyncWait :: "SessionState \<Rightarrow> SessionState" where
  "handleSyncWait s = emit SyncWaitSignal s"

definition setLocked :: "int \<Rightarrow> bool \<Rightarrow> SessionState \<Rightarrow> SessionState" where
  "setLocked uid b s =
     (case users s uid of
        None \<Rightarrow> s
      | Some u \<Rightarrow> s\<lparr>users := (users s)(uid \<mapsto> u\<lparr>u_locked := b\<rparr>)\<rparr>)"

text \<open>
  \<open>handleSessionEvent\<close>: \<open>user\<close> is the target when the target is not the null user and is
  in the session; an unknown target ends the handler before the switch.
\<close>

definition handleSessionEvent ::
  "protocol_consts \<Rightarrow> SessionState \<Rightarrow> SessionEvent \<Rightarrow> SessionState" where
  "handleSessionEvent P s msg =
     (let target = uint (sev_target msg);
          has_target = (sev_target msg \<noteq> null_user P)
      in if has_target \<and> \<not> hasUser s target then s
         else
           (case sev_action msg of
              Lock \<Rightarrow>
                (if has_target then emit (UserLocked target True) (setLocked target True s)
                 else emit (SessionLocked True) (s\<lparr>lock := True\<rparr>))
            | Unlock \<Rightarrow>
                (if has_target then emit (UserLocked target False) (setLocked target False s)
                 else emit (SessionLocked False) (s\<lparr>lock := False\<rparr>))
            | Kick \<Rightarrow> emit (UserKicked target) s
            | Delegate \<Rightarrow> emit OwnerChanged (s\<lparr>info := (info s)\<lparr>s_owner := target\<rparr>\<rparr>)
            | OtherAction n \<Rightarrow> s))"

definition handleChat :: "SessionState \<Rightarrow> Chat \<Rightarrow> SessionState" where
  "handleChat s msg =
     emit (ChatMessage
            (case users s (uint (chat_user_id msg)) of
               None \<Rightarrow> ''<unknown>''
             | Some u \<Rightarrow> u_name u)
            (chat_text msg)) s"

subsection \<open>Sequences of received messages\<close>

text \<open>
  A message of the session as the network layer hands it to the handler of its type. The
  result is \<open>None\<close> where a handler has no defined result.
\<close>

datatype Received =
  RAck Acknowledgement
| RUserInfo UserInfo
| RRaster Raster
| RSynchronize
| RSyncWait
| RSessionEvent SessionEvent
| RDrawing Message
| RChat Chat

fun receive :: "protocol_consts \<Rightarrow> SessionState \<Rightarrow> Received \<Rightarrow> SessionState option" where
  "receive P s (RAck m) = handleAck s m"
| "receive P s (RUserInfo m) = Some (handleUserInfo P s m)"
| "receive P s (RRaster m) = handleRaster s m"
| "receive P s RSynchronize = Some (handleSynchronize s)"
| "receive P s RSyncWait = Some (handleSyncWait s)"
| "receive P s (RSessionEvent m) = Some (handleSessionEvent P s m)"
| "receive P s (RDrawing m) = Some (snd (handleDrawing s m))"
| "receive P s (RChat m) = Some (handleChat s m)"

fun run :: "protocol_consts \<Rightarrow> SessionState \<Rightarrow> Received list \<Rightarrow> SessionState option" where
  "run P s [] = Some s"
| "run P s (ev # evs) =
     (case receive P s ev of
        None \<Rightarrow> None
      | Some s' \<Rightarrow> run P s' evs)"

fun is_raster_ack :: "Received \<Rightarrow> bool" where
  "is_raster_ack (RAck m) = (ack_event m = TRaster)"
| "is_raster_ack ev = False"

text \<open>Drawing messages received one after the other.\<close>

fun receiveDrawings :: "SessionState \<Rightarrow> Message list \<Rightarrow> SessionState" where
  "receiveDrawings s [] = s"
| "receiveDrawings s (m # ms) = receiveDrawings (snd (handleDrawing s m)) ms"

text \<open>Projections of the log: the signals emitted, the messages freed, the chunks sent.\<close>

fun signals :: "Effect list \<Rightarrow> Signal list" where
  "signals [] = []"
| "signals (Emit sg # es) = sg # signals es"
| "signals (e # es) = signals es"

fun deleted :: "Effect list \<Rightarrow> Message list" where
  "deleted [] = []"
| "deleted (DeleteMsg m # es) = m # deleted es"
| "deleted (e # es) = deleted es"

fun sent :: "Effect list \<Rightarrow> Raster list" where
  "sent [] = []"
| "sent (Send m # es) = m # sent es"
| "sent (e # es) = sent es"

text \<open>The last chunk of a transfer, as \<open>handleRaster\<close> decides it.\<close>

definition final_chunk :: "Raster \<Rightarrow> bool" where
  "final_chunk msg = (size' msg = 0 \<or> \<not> offset msg + length' msg < size' msg)"

fun final_raster :: "Received \<Rightarrow> bool" where
  "final_raster (RRaster m) = final_chunk m"
| "final_raster ev = False"

section \<open>Server side: MultiServer (src/server/multiserver.cpp)\<close>

subsection \<open>Collaborators\<close>

text \<open>
  The classes \<open>SessionServer\<close>, \<open>ServerConfig\<close>/\<open>Database\<close> and \<open>Client\<close> and the Qt
  library are not among the files modelled here. Their member functions that
  \<open>MultiServer\<close> calls are parameters of the model: functions on the state \<open>'r\<close> of the
  session registry and on the state \<open>'cfg\<close> of the configuration object. \<open>'a\<close> is
  \<open>QHostAddress\<close>, \<open>'t\<close> is \<open>QDateTime\<close>, \<open>'j\<close> is \<open>QJsonValue\<close>.
\<close>

record 'a QTcpSocket =
  peerAddress :: 'a
  descriptor :: nat

datatype 'a Client = Client "'a QTcpSocket"

record ('r, 'a) SessionServer =
  totalUsers :: "'r \<Rightarrow> int"
  sessionCount :: "'r \<Rightarrow> int"
  stopAll :: "'r \<Rightarrow> 'r"
  addClient :: "'r \<Rightarrow> 'a Client \<Rightarrow> 'r"

datatype ConfigKey =
  ClientTimeout
| SessionSizeLimit
| SessionCountLimit
| EnablePersistence
| IdleTimeLimit
| ServerTitle
| WelcomeMessage
| AnnounceWhiteList
| LocalAddress
| PrivateUserList
| AllowGuests

text \<open>
  \<open>isDatabase\<close> is the outcome of \<open>qobject_cast<Database*>(m_config)\<close>. \<open>getConfigJson\<close> is
  \<open>QJsonValue::fromVariant(m_config->getConfigVariant(key))\<close>. \<open>key_name\<close> is the field
  \<open>name\<close> of a \<open>ConfigKey\<close>.
\<close>

record ('cfg, 'a, 't, 'j) ServerConfig =
  key_name :: "ConfigKey \<Rightarrow> string"
  isAddressBanned :: "'cfg \<Rightarrow> 'a \<Rightarrow> bool"
  setConfigString :: "'cfg \<Rightarrow> ConfigKey \<Rightarrow> string \<Rightarrow> 'cfg"
  getConfigJson :: "'cfg \<Rightarrow> ConfigKey \<Rightarrow> 'j"
  isDatabase :: "'cfg \<Rightarrow> bool"
  deleteBan :: "'cfg \<Rightarrow> int \<Rightarrow> bool \<times> 'cfg"
  getBanlist :: "'cfg \<Rightarrow> 'j"
  addBan :: "'cfg \<Rightarrow> 'a \<Rightarrow> int \<Rightarrow> 't \<Rightarrow> string \<Rightarrow> 'j \<times> 'cfg"

text \<open>
  Qt: \<open>QJsonValue::toString\<close>, \<open>QJsonValue::toInt\<close>, \<open>toVariant().toString()\<close>,
  \<open>QString::toInt\<close>, the constructor \<open>QHostAddress(QString)\<close> (\<open>None\<close> when the address is
  null) and \<open>QDateTime::fromString(s, "yyyy-MM-dd HH:mm:ss")\<close> (\<open>None\<close> when the result is
  null).
\<close>

record ('a, 't, 'j) Qt =
  toString :: "'j \<Rightarrow> string"
  toInt :: "'j \<Rightarrow> int"
  variantToString :: "'j \<Rightarrow> string"
  stringToInt :: "string \<Rightarrow> int"
  hostAddress :: "string \<Rightarrow> 'a option"
  dateTimeFromString :: "string \<Rightarrow> 't option"

subsection \<open>The server object\<close>

datatype State = NOT_STARTED | RUNNING | STOPPING | STOPPED

text \<open>
  Calls that leave the server object and signals: \<open>client->disconnectKick(message)\<close>,
  \<open>initsys::notifyStatus\<close> with the two counts, \<open>m_server->close()\<close> and the signal
  \<open>serverStopped\<close>. Logger output is not logged.
\<close>

datatype 'a ServerEffect =
  DisconnectKick "'a Client" string
| NotifyStatus int int
| ServerClose
| ServerStopped

record ('r, 'cfg, 'a) MultiServer =
  m_config :: 'cfg
  m_sessions :: 'r
  m_state :: State
  m_autoStop :: bool
  m_log :: "'a ServerEffect list"

definition effect ::
  "'a ServerEffect \<Rightarrow> ('r, 'cfg, 'a) MultiServer \<Rightarrow> ('r, 'cfg, 'a) MultiServer" where
  "effect e s = s\<lparr>m_log := m_log s @ [e]\<rparr>"

definition setAutoStop :: "('r, 'cfg, 'a) MultiServer \<Rightarrow> bool \<Rightarrow> ('r, 'cfg, 'a) MultiServer" where
  "setAutoStop s autostop = s\<lparr>m_autoStop := autostop\<rparr>"

definition printStatusUpdate ::
  "('r, 'a) SessionServer \<Rightarrow> ('r, 'cfg, 'a) MultiServer \<Rightarrow> ('r, 'cfg, 'a) MultiServer" where
  "printStatusUpdate R s =
     effect (NotifyStatus (totalUsers R (m_sessions s)) (sessionCount R (m_sessions s))) s"

text \<open>\<open>newClient\<close>; \<open>socket\<close> is \<open>m_server->nextPendingConnection()\<close>.\<close>

definition newClient ::
  "('r, 'a) SessionServer \<Rightarrow> ('cfg, 'a, 't, 'j) ServerConfig \<Rightarrow>
   ('r, 'cfg, 'a) MultiServer \<Rightarrow> 'a QTcpSocket \<Rightarrow> ('r, 'cfg, 'a) MultiServer" where
  "newClient R C s socket =
     (let client = Client socket in
      if isAddressBanned C (m_config s) (peerAddress socket)
      then effect (DisconnectKick client ''BANNED'') s
      else printStatusUpdate R (s\<lparr>m_sessions := addClient R (m_sessions s) client\<rparr>))"

text \<open>
  \<open>stop\<close>. \<open>stopAll\<close> is taken as a step of the registry alone; slots that a
  disconnecting user would run while \<open>stopAll\<close> is still under way are not part of the
  step.
\<close>

definition stop ::
  "('r, 'a) SessionServer \<Rightarrow> ('r, 'cfg, 'a) MultiServer \<Rightarrow> ('r, 'cfg, 'a) MultiServer" where
  "stop R s =
     (let s1 = (if m_state s = RUNNING
                then (effect ServerClose (s\<lparr>m_state := STOPPING\<rparr>))
                       \<lparr>m_sessions := stopAll R (m_sessions s)\<rparr>
                else s)
      in if m_state s1 = STOPPING \<and> totalUsers R (m_sessions s1) = 0
         then effect ServerStopped (s1\<lparr>m_state := STOPPED\<rparr>)
         else s1)"

definition tryAutoStop ::
  "('r, 'a) SessionServer \<Rightarrow> ('r, 'cfg, 'a) MultiServer \<Rightarrow> ('r, 'cfg, 'a) MultiServer" where
  "tryAutoStop R s =
     (if m_state s = RUNNING \<and> m_autoStop s \<and> sessionCount R (m_sessions s) = 0
         \<and> totalUsers R (m_sessions s) = 0
      then stop R s else s)"

text \<open>
  The slots the constructor connects: \<open>sessionEnded\<close> runs \<open>tryAutoStop\<close>;
  \<open>userDisconnected\<close> runs the lambda.
\<close>

definition sessionEnded ::
  "('r, 'a) SessionServer \<Rightarrow> ('r, 'cfg, 'a) MultiServer \<Rightarrow> ('r, 'cfg, 'a) MultiServer" where
  "sessionEnded R s = tryAutoStop R s"

definition userDisconnected ::
  "('r, 'a) SessionServer \<Rightarrow> ('r, 'cfg, 'a) MultiServer \<Rightarrow> ('r, 'cfg, 'a) MultiServer" where
  "userDisconnected R s =
     (let s1 = printStatusUpdate R s in
      if m_state s1 = STOPPING then stop R s1 else tryAutoStop R s1)"

subsection \<open>The administrative interface\<close>

datatype JsonApiMethod = Get | Create | Update | Delete

datatype Status = Ok | BadRequest | NotFound | BadMethod

text \<open>
  The body of a result: the standard body of \<open>JsonApiNotFound()\<close> and
  \<open>JsonApiBadMethod()\<close>, the message of \<open>JsonApiErrorResult\<close>, the empty
  \<open>QJsonDocument()\<close>, a document made of a value, or a document made of an object. A
  \<open>QJsonObject\<close> is a map from names to values.
\<close>

datatype 'j Body =
  StandardBody
| ErrorMessage string
| EmptyDocument
| Document 'j
| Object "string \<rightharpoonup> 'j"

record 'j JsonApiResult =
  status :: Status
  body :: "'j Body"

definition JsonApiNotFound :: "'j JsonApiResult" where
  "JsonApiNotFound = \<lparr>status = NotFound, body = StandardBody\<rparr>"

definition JsonApiBadMethod :: "'j JsonApiResult" where
  "JsonApiBadMethod = \<lparr>status = BadMethod, body = StandardBody\<rparr>"

definition JsonApiErrorResult :: "Status \<Rightarrow> string \<Rightarrow> 'j JsonApiResult" where
  "JsonApiErrorResult st msg = \<lparr>status = st, body = ErrorMessage msg\<rparr>"

text \<open>The table \<open>settings\<close> of \<open>serverJsonApi\<close>, in its order.\<close>

definition settings :: "ConfigKey list" where
  "settings =
     [ClientTimeout, SessionSizeLimit, SessionCountLimit, EnablePersistence, IdleTimeLimit,
      ServerTitle, WelcomeMessage, AnnounceWhiteList, LocalAddress, PrivateUserList,
      AllowGuests]"

text \<open>The first loop: each key of the table whose name the request contains is set.\<close>

fun updateSettings ::
  "('cfg, 'a, 't, 'j) ServerConfig \<Rightarrow> ('a, 't, 'j) Qt \<Rightarrow> (string \<rightharpoonup> 'j) \<Rightarrow>
   'cfg \<Rightarrow> ConfigKey list \<Rightarrow> 'cfg" where
  "updateSettings C Q request cfg [] = cfg"
| "updateSettings C Q request cfg (k # ks) =
     updateSettings C Q request
       (case request (key_name C k) of
          None \<Rightarrow> cfg
        | Some v \<Rightarrow> setConfigString C cfg k (variantToString Q v))
       ks"

text \<open>The second loop: \<open>result[name] = value\<close> for each key of the table.\<close>

fun settingsObject ::
  "('cfg, 'a, 't, 'j) ServerConfig \<Rightarrow> 'cfg \<Rightarrow> (string \<rightharpoonup> 'j) \<Rightarrow> ConfigKey list \<Rightarrow>
   (string \<rightharpoonup> 'j)" where
  "settingsObject C cfg result [] = result"
| "settingsObject C cfg result (k # ks) =
     settingsObject C cfg (result(key_name C k \<mapsto> getConfigJson C cfg k)) ks"

definition serverJsonApi ::
  "('cfg, 'a, 't, 'j) ServerConfig \<Rightarrow> ('a, 't, 'j) Qt \<Rightarrow> 'cfg \<Rightarrow> JsonApiMethod \<Rightarrow>
   string list \<Rightarrow> (string \<rightharpoonup> 'j) \<Rightarrow> 'j JsonApiResult \<times> 'cfg" where
  "serverJsonApi C Q cfg method path request =
     (if path \<noteq> [] then (JsonApiNotFound, cfg)
      else if method \<noteq> Get \<and> method \<noteq> Update then (JsonApiBadMethod, cfg)
      else
        (let cfg1 = (if method = Update then updateSettings C Q request cfg settings else cfg)
         in (\<lparr>status = Ok, body = Object (settingsObject C cfg1 Map.empty settings)\<rparr>, cfg1)))"

text \<open>\<open>request[key].toString()\<close> and \<open>request[key].toInt()\<close>; a missing key gives the defaults.\<close>

definition requestString :: "('a, 't, 'j) Qt \<Rightarrow> (string \<rightharpoonup> 'j) \<Rightarrow> string \<Rightarrow> string" where
  "requestString Q request key = (case request key of None \<Rightarrow> [] | Some v \<Rightarrow> toString Q v)"

definition requestInt :: "('a, 't, 'j) Qt \<Rightarrow> (string \<rightharpoonup> 'j) \<Rightarrow> string \<Rightarrow> int" where
  "requestInt Q request key = (case request key of None \<Rightarrow> 0 | Some v \<Rightarrow> toInt Q v)"

definition banlistJsonApi ::
  "('cfg, 'a, 't, 'j) ServerConfig \<Rightarrow> ('a, 't, 'j) Qt \<Rightarrow> 'cfg \<Rightarrow> JsonApiMethod \<Rightarrow>
   string list \<Rightarrow> (string \<rightharpoonup> 'j) \<Rightarrow> 'j JsonApiResult \<times> 'cfg" where
  "banlistJsonApi C Q cfg method path request =
     (if \<not> isDatabase C cfg then (JsonApiNotFound, cfg)
      else if length path = 1 then
        (if method \<noteq> Delete then (JsonApiBadMethod, cfg)
         else (case deleteBan C cfg (stringToInt Q (hd path)) of
                 (True, cfg') \<Rightarrow> (\<lparr>status = Ok, body = EmptyDocument\<rparr>, cfg')
               | (False, cfg') \<Rightarrow> (JsonApiNotFound, cfg')))
      else if path \<noteq> [] then (JsonApiNotFound, cfg)
      else if method = Get then (\<lparr>status = Ok, body = Document (getBanlist C cfg)\<rparr>, cfg)
      else if method = Create then
        (case hostAddress Q (requestString Q request ''ip'') of
           None \<Rightarrow> (JsonApiErrorResult BadRequest ''Valid IP address required'', cfg)
         | Some ip \<Rightarrow>
             (let subnet = requestInt Q request ''subnet'' in
              case dateTimeFromString Q (requestString Q request ''expiration'') of
                None \<Rightarrow> (JsonApiErrorResult BadRequest ''Valid expiration time required'', cfg)
              | Some expiration \<Rightarrow>
                  (let comment = requestString Q request ''comment'';
                       (entry, cfg') = addBan C cfg ip subnet expiration comment
                   in (\<lparr>status = Ok, body = Document entry\<rparr>, cfg'))))
      else (JsonApiBadMethod, cfg))"

section \<open>Concrete instances\<close>

text \<open>
  A freshly constructed session state, some messages, and simple instances of the
  collaborators, on which the theorems below are instantiated.
\<close>

definition sample_consts :: protocol_consts where
  "sample_consts = \<lparr>user_mode_Locked = 16, null_user = 0, fIsSet = (\<lambda>v f. and v f = f)\<rparr>"

definition fresh :: SessionState where
  "fresh = SessionState_new sample_consts ''ann'' 1 Map.empty
     \<lparr>s_id = 1, s_owner = 1, s_maxusers = 8, s_mode = 0\<rparr>"

definition tool1 :: ToolInfo where
  "tool1 = \<lparr>ti_user_id = 2, lo_color = (0, 0, 0, 255), hi_color = (255, 0, 0, 255),
     lo_size = 1, hi_size = 5, lo_hardness = 128, hi_hardness = 255\<rparr>"

definition stroke1 :: StrokeInfo where
  "stroke1 = \<lparr>si_user_id = 2, si_x = 10, si_y = 20, si_pressure = 255\<rparr>"

definition end1 :: StrokeEnd where
  "end1 = \<lparr>se_user_id = 2\<rparr>"

definition part_chunk :: Raster where
  "part_chunk = \<lparr>session_id = 1, offset = 0, length' = 1, size' = 2, data = [137]\<rparr>"

definition last_chunk :: Raster where
  "last_chunk = \<lparr>session_id = 1, offset = 1, length' = 1, size' = 2, data = [80]\<rparr>"

definition zero_raster :: Raster where
  "zero_raster = \<lparr>session_id = 0, offset = 0, length' = 0, size' = 0, data = []\<rparr>"

text \<open>A registry that only counts: users and sessions.\<close>

definition sample_registry :: "(int \<times> int, nat) SessionServer" where
  "sample_registry =
     \<lparr>totalUsers = fst, sessionCount = snd, stopAll = (\<lambda>r. (fst r, 0)),
      addClient = (\<lambda>r c. (fst r + 1, snd r))\<rparr>"

text \<open>
  A configuration object: the values of the keys, the ban entries (address, subnet,
  expiration, comment) and whether the object is a database.
\<close>

record sample_cfg =
  entries :: "ConfigKey \<Rightarrow> string"
  banlist :: "(nat \<times> int \<times> nat \<times> string) list"
  database :: bool

fun sample_key_name :: "ConfigKey \<Rightarrow> string" where
  "sample_key_name ClientTimeout = ''clientTimeout''"
| "sample_key_name SessionSizeLimit = ''sessionSizeLimit''"
| "sample_key_name SessionCountLimit = ''sessionCountLimit''"
| "sample_key_name EnablePersistence = ''persistence''"
| "sample_key_name IdleTimeLimit = ''idleTimeLimit''"
| "sample_key_name ServerTitle = ''serverTitle''"
| "sample_key_name WelcomeMessage = ''welcomeMessage''"
| "sample_key_name AnnounceWhiteList = ''announceWhitelist''"
| "sample_key_name LocalAddress = ''localAddress''"
| "sample_key_name PrivateUserList = ''privateUserList''"
| "sample_key_name AllowGuests = ''allowGuests''"

definition sample_config :: "(sample_cfg, nat, nat, string) ServerConfig" where
  "sample_config =
     \<lparr>key_name = sample_key_name,
      isAddressBanned = (\<lambda>c a. a \<in> set (map fst (banlist c))),
      setConfigString = (\<lambda>c k v. c\<lparr>entries := (entries c)(k := v)\<rparr>),
      getConfigJson = (\<lambda>c k. entries c k),
      isDatabase = database,
      deleteBan = (\<lambda>c i. (0 \<le> i \<and> nat i < length (banlist c),
                            c\<lparr>banlist := take (nat i) (banlist c) @ drop (Suc (nat i)) (banlist c)\<rparr>)),
      getBanlist = (\<lambda>c. concat (map (\<lambda>b. snd (snd (snd b))) (banlist c))),
      addBan = (\<lambda>c a n t cm. (cm, c\<lparr>banlist := banlist c @ [(a, n, t, cm)]\<rparr>))\<rparr>"

definition sample_qt :: "(nat, nat, string) Qt" where
  "sample_qt =
     \<lparr>toString = (\<lambda>v. v), toInt = (\<lambda>v. 0), variantToString = (\<lambda>v. v),
      stringToInt = (\<lambda>v. 0),
      hostAddress = (\<lambda>v. if v = ''10.0.0.1'' then Some 1 else None),
      dateTimeFromString = (\<lambda>v. if v = ''2030-01-01 00:00:00'' then Some 1 else None)\<rparr>"

definition cfg0 :: sample_cfg where
  "cfg0 = \<lparr>entries = (\<lambda>k. ''0''), banlist = [(7, 32, 1, ''spam'')], database = True\<rparr>"

definition server0 :: "(int \<times> int, sample_cfg, nat) MultiServer" where
  "server0 = \<lparr>m_config = cfg0, m_sessions = (0, 0), m_state = RUNNING, m_autoStop = True,
     m_log = []\<rparr>"

definition busy_server :: "(int \<times> int, sample_cfg, nat) MultiServer" where
  "busy_server = server0\<lparr>m_sessions := (2, 1)\<rparr>"

definition stopping_server :: "(int \<times> int, sample_cfg, nat) MultiServer" where
  "stopping_server = server0\<lparr>m_state := STOPPING\<rparr>"

definition title_request :: "string \<rightharpoonup> string" where
  "title_request = [''serverTitle'' \<mapsto> ''Hello'']"

definition ban_request :: "string \<rightharpoonup> string" where
  "ban_request = [''ip'' \<mapsto> ''10.0.0.1'', ''expiration'' \<mapsto> ''soon'']"

section \<open>Properties of the draw buffer\<close>

lemma flush_step:
  assumes "\<not> bufferdrawing s"
  shows "handleDrawing s m = (False, emit (applied m) s)"
  using assms
  by (cases m) (simp_all add: handleToolInfo_def handleStrokeInfo_def handleStrokeEnd_def)

lemma drain_live:
  "\<not> bufferdrawing s \<Longrightarrow>
   drain s = Some (s\<lparr>drawbuffer := [],
     effects := effects s @ concat (map (\<lambda>m. [Emit (applied m), DeleteMsg m]) (drawbuffer s))\<rparr>)"
proof (induction "drawbuffer s" arbitrary: s)
  case Nil
  then show ?case by (subst drain.simps) simp
next
  case (Cons msg rest)
  let ?s' = "delete msg (snd (handleDrawing (s\<lparr>drawbuffer := rest\<rparr>) msg))"
  have live: "\<not> bufferdrawing ?s'" and buf: "rest = drawbuffer ?s'"
    and eff: "effects ?s' = effects s @ [Emit (applied msg), DeleteMsg msg]"
    using Cons.prems
    by (cases msg; simp add: delete_def emit_def handleToolInfo_def handleStrokeInfo_def
        handleStrokeEnd_def)+
  have rest: "?s'\<lparr>drawbuffer := []\<rparr> = s\<lparr>drawbuffer := [], effects := effects ?s'\<rparr>"
    using Cons.prems
    by (cases msg; simp add: delete_def emit_def handleToolInfo_def handleStrokeInfo_def
        handleStrokeEnd_def)
  have "drain s = drain ?s'"
    using Cons.hyps(2) [symmetric] by (subst drain.simps) simp
  also have "\<dots> = Some (?s'\<lparr>drawbuffer := [],
     effects := effects ?s' @ concat (map (\<lambda>m. [Emit (applied m), DeleteMsg m]) (drawbuffer ?s'))\<rparr>)"
    using Cons.hyps(1) [OF buf live] .
  finally show ?case
    using Cons.hyps(2) [symmetric] buf [symmetric] eff rest by simp
qed

lemma handleDrawing_buffering:
  assumes "bufferdrawing s"
  shows "handleDrawing s m = (True, s\<lparr>drawbuffer := drawbuffer s @ [m]\<rparr>)"
  using assms
  by (cases m) (simp_all add: handleToolInfo_def handleStrokeInfo_def handleStrokeEnd_def)

text \<open>
  Were the flag still set, each handler would enqueue the message again and the loop
  would have no end: the order of the two steps of \<open>flushDrawBuffer\<close> matters.
\<close>

lemma drain_while_buffering:
  assumes "drain s = Some y"
  shows "\<not> (bufferdrawing s \<and> drawbuffer s \<noteq> [])"
proof (rule drain.raw_induct [where P = "\<lambda>s y. \<not> (bufferdrawing s \<and> drawbuffer s \<noteq> [])",
      OF _ assms])
  fix loop :: "SessionState \<Rightarrow> SessionState option" and t z
  assume IH: "\<And>u v. loop u = Some v \<Longrightarrow> \<not> (bufferdrawing u \<and> drawbuffer u \<noteq> [])"
    and body: "(case drawbuffer t of [] \<Rightarrow> Some t
      | msg # rest \<Rightarrow>
          loop (delete msg (snd (handleDrawing (t\<lparr>drawbuffer := rest\<rparr>) msg)))) = Some z"
  show "\<not> (bufferdrawing t \<and> drawbuffer t \<noteq> [])"
  proof
    assume b: "bufferdrawing t \<and> drawbuffer t \<noteq> []"
    then obtain msg rest where q: "drawbuffer t = msg # rest"
      by (cases "drawbuffer t") auto
    let ?n = "delete msg (snd (handleDrawing (t\<lparr>drawbuffer := rest\<rparr>) msg))"
    from body q have "loop ?n = Some z" by simp
    from IH [OF this] have "\<not> (bufferdrawing ?n \<and> drawbuffer ?n \<noteq> [])" .
    moreover have "bufferdrawing ?n \<and> drawbuffer ?n \<noteq> []"
      using b by (simp add: handleDrawing_buffering delete_def)
    ultimately show False by blast
  qed
qed

lemma drain_diverges: "bufferdrawing s \<Longrightarrow> drawbuffer s \<noteq> [] \<Longrightarrow> drain s = None"
  using drain_while_buffering [of s] by (cases "drain s") auto

lemma flushDrawBuffer_eq:
  "flushDrawBuffer s = Some (s\<lparr>bufferdrawing := False, drawbuffer := [],
     effects := effects s @ concat (map (\<lambda>m. [Emit (applied m), DeleteMsg m]) (drawbuffer s))\<rparr>)"
  unfolding flushDrawBuffer_def by (subst drain_live) simp_all

lemma signals_append: "signals (es @ fs) = signals es @ signals fs"
  by (induction es rule: signals.induct) simp_all

lemma deleted_append: "deleted (es @ fs) = deleted es @ deleted fs"
  by (induction es rule: deleted.induct) simp_all

lemma sent_append: "sent (es @ fs) = sent es @ sent fs"
  by (induction es rule: sent.induct) simp_all

lemma signals_drained:
  "signals (concat (map (\<lambda>m. [Emit (applied m), DeleteMsg m]) ms)) = map applied ms"
  by (induction ms) simp_all

lemma deleted_drained:
  "deleted (concat (map (\<lambda>m. [Emit (applied m), DeleteMsg m]) ms)) = ms"
  by (induction ms) simp_all

lemma sent_drained:
  "sent (concat (map (\<lambda>m. [Emit (applied m), DeleteMsg m]) ms)) = []"
  by (induction ms) simp_all

lemma receiveDrawings_buffering:
  "bufferdrawing s \<Longrightarrow> receiveDrawings s ms = s\<lparr>drawbuffer := drawbuffer s @ ms\<rparr>"
  by (induction ms arbitrary: s) (simp_all add: handleDrawing_buffering)

subsection \<open>What the handlers leave alone\<close>

lemma sendRasterChunk_frame:
  "sendRasterChunk s = Some s' \<Longrightarrow>
   bufferdrawing s' = bufferdrawing s \<and> drawbuffer s' = drawbuffer s"
  by (auto simp: sendRasterChunk_def Let_def releaseRaster_def emit_def send_def
      split: if_splits)

lemma handleUserInfo_frame:
  "bufferdrawing (handleUserInfo P s m) = bufferdrawing s
   \<and> drawbuffer (handleUserInfo P s m) = drawbuffer s"
  by (simp add: handleUserInfo_def Let_def emit_def)

lemma handleSessionEvent_frame:
  "bufferdrawing (handleSessionEvent P s m) = bufferdrawing s
   \<and> drawbuffer (handleSessionEvent P s m) = drawbuffer s"
  by (simp add: handleSessionEvent_def Let_def emit_def setLocked_def
      split: session_action.split option.split)

lemma handleRaster_live:
  "\<not> bufferdrawing s \<Longrightarrow> drawbuffer s = [] \<Longrightarrow>
   \<exists>s'. handleRaster s m = Some s' \<and> \<not> bufferdrawing s' \<and> drawbuffer s' = []"
  by (simp add: handleRaster_def Let_def flushDrawBuffer_eq emit_def)

lemma handleRaster_nonfinal:
  "\<not> final_chunk m \<Longrightarrow>
   \<exists>s'. handleRaster s m = Some s' \<and> bufferdrawing s' = bufferdrawing s
     \<and> drawbuffer s' = drawbuffer s"
  by (simp add: handleRaster_def Let_def final_chunk_def emit_def)

lemma receive_live:
  assumes "\<not> bufferdrawing s" "drawbuffer s = []" "receive P s ev = Some s'"
  shows "\<not> bufferdrawing s' \<and> drawbuffer s' = []"
proof (cases ev)
  case (RAck m)
  then show ?thesis
    using assms sendRasterChunk_frame [of s s']
    by (auto simp: handleAck_def emit_def split: if_splits)
next
  case (RRaster m)
  then show ?thesis using assms handleRaster_live [of s m] by auto
next
  case (RDrawing m)
  then show ?thesis using assms by (auto simp: flush_step emit_def)
qed (use assms in \<open>auto simp: handleUserInfo_frame handleSessionEvent_frame
      handleSynchronize_def handleSyncWait_def handleChat_def emit_def\<close>)

lemma run_live:
  "\<not> bufferdrawing s \<Longrightarrow> drawbuffer s = [] \<Longrightarrow> run P s evs = Some s' \<Longrightarrow>
   \<not> bufferdrawing s' \<and> drawbuffer s' = []"
proof (induction evs arbitrary: s)
  case Nil
  then show ?case by simp
next
  case (Cons ev evs)
  then obtain s1 where s1: "receive P s ev = Some s1" and r: "run P s1 evs = Some s'"
    by (auto split: option.splits)
  from receive_live [OF Cons.prems(1,2) s1] Cons.IH [OF _ _ r] show ?case by blast
qed

lemma receive_defined:
  assumes "\<not> bufferdrawing s" "drawbuffer s = []" "\<not> is_raster_ack ev"
  shows "\<exists>s'. receive P s ev = Some s'"
proof (cases ev)
  case (RAck m)
  then show ?thesis using assms by (simp add: handleAck_def)
next
  case (RRaster m)
  then show ?thesis using handleRaster_live [OF assms(1,2)] by auto
qed simp_all

lemma run_defined:
  "\<not> bufferdrawing s \<Longrightarrow> drawbuffer s = [] \<Longrightarrow> list_all (\<lambda>ev. \<not> is_raster_ack ev) evs \<Longrightarrow>
   \<exists>s'. run P s evs = Some s'"
proof (induction evs arbitrary: s)
  case Nil
  then show ?case by simp
next
  case (Cons ev evs)
  from Cons.prems obtain s1 where s1: "receive P s ev = Some s1"
    using receive_defined [of s ev P] by auto
  from receive_live [OF Cons.prems(1,2) s1] Cons.IH [of s1] Cons.prems(3) s1
  show ?case by auto
qed

lemma receive_buffering:
  assumes "bufferdrawing s" "\<not> final_raster ev" "receive P s ev = Some s'"
  shows "bufferdrawing s'"
proof (cases ev)
  case (RAck m)
  then show ?thesis
    using assms sendRasterChunk_frame [of s s']
    by (auto simp: handleAck_def emit_def split: if_splits)
next
  case (RRaster m)
  then show ?thesis using assms handleRaster_nonfinal [of m s] by auto
next
  case (RDrawing m)
  then show ?thesis using assms by (auto simp: handleDrawing_buffering)
qed (use assms in \<open>auto simp: handleUserInfo_frame handleSessionEvent_frame
      handleSynchronize_def handleSyncWait_def handleChat_def emit_def\<close>)

lemma fresh_simps:
  "bufferdrawing fresh" "drawbuffer fresh = []" "effects fresh = []" "raster fresh = []"
  "rasteroffset fresh = 0"
  by (simp_all add: fresh_def SessionState_new_def)

section \<open>The claims about the draw buffer\<close>

text \<open>
  Claim C1. While the member is buffering, a drawing operation (ToolInfo, StrokeInfo or
  StrokeEnd) is neither applied nor dropped: its handler returns true and the only change
  of the state is that the operation is appended to the draw buffer. Buffering lasts until
  the final raster chunk: no other received message ends it. When the final chunk (or the
  zero-size raster) is handled after the operations \<open>ms\<close> were received, the handler
  returns, the signals emitted are the 100 percent progress followed by the buffered
  operations applied in exactly the order of receipt, and the buffer is left empty.
\<close>

theorem buffered_operations_drained_in_order:
  assumes "bufferdrawing s"
  shows "handleDrawing s m = (True, s\<lparr>drawbuffer := drawbuffer s @ [m]\<rparr>)
    \<and> (\<not> final_raster ev \<longrightarrow> receive P s ev = Some s1 \<longrightarrow> bufferdrawing s1)
    \<and> (final_chunk r \<longrightarrow>
         (\<exists>s'. handleRaster (receiveDrawings s ms) r = Some s'
            \<and> signals (effects s') =
                signals (effects s) @ [RasterReceived 100] @ map applied (drawbuffer s @ ms)
            \<and> drawbuffer s' = [] \<and> \<not> bufferdrawing s'))"
proof -
  have "handleDrawing s m = (True, s\<lparr>drawbuffer := drawbuffer s @ [m]\<rparr>)"
    using assms by (rule handleDrawing_buffering)
  moreover have "\<not> final_raster ev \<longrightarrow> receive P s ev = Some s1 \<longrightarrow> bufferdrawing s1"
    using receive_buffering [OF assms] by blast
  moreover have "final_chunk r \<longrightarrow>
         (\<exists>s'. handleRaster (receiveDrawings s ms) r = Some s'
            \<and> signals (effects s') =
                signals (effects s) @ [RasterReceived 100] @ map applied (drawbuffer s @ ms)
            \<and> drawbuffer s' = [] \<and> \<not> bufferdrawing s')"
    using assms
    by (simp add: receiveDrawings_buffering handleRaster_def final_chunk_def
        flushDrawBuffer_eq emit_def Let_def signals_append signals_drained)
  ultimately show ?thesis by blast
qed

theorem buffered_operations_drained_in_order_witness:
  "bufferdrawing fresh
   \<and> handleDrawing fresh (MStrokeInfo stroke1)
       = (True, fresh\<lparr>drawbuffer := [MStrokeInfo stroke1]\<rparr>)
   \<and> \<not> final_raster (RRaster part_chunk)
   \<and> receive sample_consts fresh (RRaster part_chunk)
       = Some (emit (RasterReceived 49) (fresh\<lparr>raster := [137]\<rparr>))
   \<and> bufferdrawing (emit (RasterReceived 49) (fresh\<lparr>raster := [137]\<rparr>))
   \<and> final_chunk zero_raster
   \<and> (\<exists>s'. handleRaster
              (receiveDrawings fresh [MToolInfo tool1, MStrokeInfo stroke1, MStrokeEnd end1])
              zero_raster = Some s'
         \<and> signals (effects s') =
             [RasterReceived 100, applied (MToolInfo tool1), applied (MStrokeInfo stroke1),
              applied (MStrokeEnd end1)]
         \<and> drawbuffer s' = [] \<and> \<not> bufferdrawing s')"
proof -
  have f: "final_chunk zero_raster"
    by (simp add: final_chunk_def zero_raster_def)
  have n: "\<not> final_raster (RRaster part_chunk)"
    by (simp add: final_chunk_def part_chunk_def)
  have r: "receive sample_consts fresh (RRaster part_chunk)
       = Some (emit (RasterReceived 49) (fresh\<lparr>raster := [137]\<rparr>))"
    by (simp add: handleRaster_def part_chunk_def chunk_def Let_def fresh_simps)
  show ?thesis
    using buffered_operations_drained_in_order [OF fresh_simps(1),
        of "MStrokeInfo stroke1" "RRaster part_chunk" sample_consts
        "emit (RasterReceived 49) (fresh\<lparr>raster := [137]\<rparr>)" zero_raster
        "[MToolInfo tool1, MStrokeInfo stroke1, MStrokeEnd end1]"] f n r
    by (simp add: fresh_simps)
qed

text \<open>
  Claim C2. The transition from buffering to live is one-way. \<open>flushDrawBuffer\<close> returns,
  and in every state reached from its result by any sequence of received messages
  (raster chunks that restart a transfer included) the buffering flag is off and the draw
  buffer is empty, so that each drawing operation is applied on receipt: its handler
  returns false and emits the operation's signal. Every sequence without raster
  acknowledgements is handled to its end.
\<close>

theorem buffering_retired_for_good:
  "\<exists>s0. flushDrawBuffer s = Some s0
     \<and> (\<forall>evs s'. run P s0 evs = Some s' \<longrightarrow>
           \<not> bufferdrawing s' \<and> drawbuffer s' = []
           \<and> (\<forall>m. handleDrawing s' m = (False, emit (applied m) s')))
     \<and> (\<forall>evs. list_all (\<lambda>ev. \<not> is_raster_ack ev) evs \<longrightarrow> run P s0 evs \<noteq> None)"
proof -
  let ?s0 = "s\<lparr>bufferdrawing := False, drawbuffer := [],
     effects := effects s @ concat (map (\<lambda>m. [Emit (applied m), DeleteMsg m]) (drawbuffer s))\<rparr>"
  have live: "\<not> bufferdrawing ?s0" "drawbuffer ?s0 = []" by simp_all
  have "\<not> bufferdrawing s' \<and> drawbuffer s' = []
        \<and> (\<forall>m. handleDrawing s' m = (False, emit (applied m) s'))"
    if "run P ?s0 evs = Some s'" for evs s'
    using run_live [OF live that] by (simp add: flush_step)
  moreover have "run P ?s0 evs \<noteq> None" if "list_all (\<lambda>ev. \<not> is_raster_ack ev) evs" for evs
    using run_defined [OF live that, of P] by auto
  ultimately show ?thesis
    unfolding flushDrawBuffer_eq by blast
qed

theorem buffering_retired_for_good_witness:
  "\<exists>s0 s'. flushDrawBuffer fresh = Some s0
     \<and> list_all (\<lambda>ev. \<not> is_raster_ack ev)
          [RRaster part_chunk, RDrawing (MStrokeEnd end1), RRaster last_chunk]
     \<and> run sample_consts s0
          [RRaster part_chunk, RDrawing (MStrokeEnd end1), RRaster last_chunk] = Some s'
     \<and> \<not> bufferdrawing s' \<and> drawbuffer s' = []
     \<and> handleDrawing s' (MStrokeInfo stroke1)
         = (False, emit (applied (MStrokeInfo stroke1)) s')"
proof -
  let ?evs = "[RRaster part_chunk, RDrawing (MStrokeEnd end1), RRaster last_chunk]"
  from buffering_retired_for_good [of fresh sample_consts]
  obtain s0 where s0: "flushDrawBuffer fresh = Some s0"
    and inv: "\<And>evs s'. run sample_consts s0 evs = Some s' \<Longrightarrow>
           \<not> bufferdrawing s' \<and> drawbuffer s' = []
           \<and> (\<forall>m. handleDrawing s' m = (False, emit (applied m) s'))"
    and tot: "\<And>evs. list_all (\<lambda>ev. \<not> is_raster_ack ev) evs \<Longrightarrow> run sample_consts s0 evs \<noteq> None"
    by blast
  have l: "list_all (\<lambda>ev. \<not> is_raster_ack ev) ?evs" by simp
  from tot [OF l] obtain s' where s': "run sample_consts s0 ?evs = Some s'" by blast
  from inv [OF s'] s0 l s' show ?thesis by blast
qed

text \<open>
  Claim C10. \<open>flushDrawBuffer\<close> returns for every state. The flag is cleared before the
  loop, so a handler called from the loop does not enqueue (it returns false). The
  messages freed by the call are the messages of the buffer, each once and in order; the
  signals emitted are those of the same messages, each once and in order; and the buffer
  is empty afterwards.
\<close>

theorem flushDrawBuffer_terminates_once:
  "\<exists>s'. flushDrawBuffer s = Some s'
     \<and> drawbuffer s' = []
     \<and> \<not> bufferdrawing s'
     \<and> deleted (effects s') = deleted (effects s) @ drawbuffer s
     \<and> signals (effects s') = signals (effects s) @ map applied (drawbuffer s)
     \<and> fst (handleDrawing (s\<lparr>bufferdrawing := False\<rparr>) m) = False"
  by (simp add: flushDrawBuffer_eq signals_append deleted_append signals_drained
      deleted_drained flush_step)

section \<open>The claims about raster transfer\<close>

text \<open>
  Claim C3. A raster chunk of a raster of nonzero size is always handled to the end. When
  its offset is 0, whatever was accumulated before is discarded and the stored raster is
  exactly the chunk's data; when its offset is not 0, the chunk's data is appended after
  the stored raster. The chunk's data is the whole data buffer of a message that holds
  \<open>length\<close> bytes. (A message of size 0 takes the branch of the special case; see C4.)
\<close>

theorem raster_restart_and_append:
  assumes "size' m \<noteq> 0"
  shows "\<exists>s'. handleRaster s m = Some s'
     \<and> (offset m = 0 \<longrightarrow> raster s' = chunk m)
     \<and> (offset m \<noteq> 0 \<longrightarrow> raster s' = raster s @ chunk m)
     \<and> (0 \<le> sint (length' m) \<and> int (length (data m)) = sint (length' m) \<longrightarrow> chunk m = data m)"
  using assms
  by (auto simp: handleRaster_def Let_def flushDrawBuffer_eq emit_def chunk_def)

theorem raster_restart_and_append_witness:
  "size' part_chunk \<noteq> 0 \<and> offset part_chunk = 0
   \<and> 0 \<le> sint (length' part_chunk)
   \<and> int (length (data part_chunk)) = sint (length' part_chunk)
   \<and> (\<exists>s'. handleRaster (fresh\<lparr>raster := [1, 2, 3]\<rparr>) part_chunk = Some s'
         \<and> raster s' = [137])
   \<and> size' last_chunk \<noteq> 0 \<and> offset last_chunk \<noteq> 0
   \<and> 0 \<le> sint (length' last_chunk)
   \<and> int (length (data last_chunk)) = sint (length' last_chunk)
   \<and> (\<exists>s'. handleRaster (fresh\<lparr>raster := [137]\<rparr>) last_chunk = Some s'
         \<and> raster s' = [137, 80])"
proof -
  have p: "size' part_chunk \<noteq> 0" "offset part_chunk = 0"
    "0 \<le> sint (length' part_chunk)"
    "int (length (data part_chunk)) = sint (length' part_chunk)" "data part_chunk = [137]"
    by (simp_all add: part_chunk_def)
  have l: "size' last_chunk \<noteq> 0" "offset last_chunk \<noteq> 0"
    "0 \<le> sint (length' last_chunk)"
    "int (length (data last_chunk)) = sint (length' last_chunk)" "data last_chunk = [80]"
    by (simp_all add: last_chunk_def)
  show ?thesis
    using raster_restart_and_append [OF p(1), of "fresh\<lparr>raster := [1, 2, 3]\<rparr>"]
      raster_restart_and_append [OF l(1), of "fresh\<lparr>raster := [137]\<rparr>"] p l
    by auto
qed

text \<open>
  A raster message of size 0 completes the transfer at once: the handler returns, the 100
  percent progress is emitted, the buffered operations are applied and buffering is off.
  The stored raster is not touched, so the session image is the null image when nothing
  had been stored before.
\<close>

lemma zero_size_raster_completes:
  assumes "size' m = 0"
  shows "\<exists>s'. handleRaster s m = Some s'
     \<and> signals (effects s') = signals (effects s) @ [RasterReceived 100] @ map applied (drawbuffer s)
     \<and> \<not> bufferdrawing s' \<and> drawbuffer s' = [] \<and> raster s' = raster s
     \<and> (raster s = [] \<longrightarrow> sessionImage ld s' = Some NullImage)"
  using assms
  by (simp add: handleRaster_def flushDrawBuffer_eq emit_def signals_append signals_drained
      sessionImage_def)

text \<open>
  Claim C4. The claim promises the null picture after every raster message of size 0. The
  code keeps the bytes of a transfer that was under way: after the first chunk of a
  two-byte raster, the message of size 0 completes the transfer (progress 100, buffering
  off) and leaves the one byte stored, and \<open>sessionImage\<close> decodes that byte instead of
  giving the null image: it reports invalid data with a decoder that rejects the byte and
  a loaded image with a decoder that accepts it.
\<close>

theorem zero_size_raster_after_partial_transfer:
  "handleRaster fresh part_chunk = Some (emit (RasterReceived 49) (fresh\<lparr>raster := [137]\<rparr>))
   \<and> (\<exists>s'. handleRaster (emit (RasterReceived 49) (fresh\<lparr>raster := [137]\<rparr>)) zero_raster = Some s'
        \<and> signals (effects s') = [RasterReceived 49, RasterReceived 100]
        \<and> \<not> bufferdrawing s'
        \<and> raster s' = [137]
        \<and> sessionImage (\<lambda>bytes. None) s' = (None :: unit QImage option)
        \<and> sessionImage (\<lambda>bytes. Some bytes) s' = Some (Loaded [137]))"
  by (simp add: handleRaster_def part_chunk_def zero_raster_def chunk_def Let_def fresh_simps
      flushDrawBuffer_eq emit_def sessionImage_def)

text \<open>
  Claim C5, as amended. \<open>sendRaster\<close> with an empty raster sends no chunk at all:
  \<open>sendRasterChunk\<close> computes a chunk length of 0, resets the offset, releases the raster
  and returns. Nothing is handed to the network and no signal is emitted.
\<close>

theorem empty_raster_sends_nothing:
  "sendRaster s [] = Some (s\<lparr>raster := [], rasteroffset := 0\<rparr>)
   \<and> sent (effects (s\<lparr>raster := [], rasteroffset := 0\<rparr>)) = sent (effects s)"
  by (simp add: sendRaster_def sendRasterChunk_def raster_length_def releaseRaster_def)

text \<open>
  Claim C5 as stated fails: the freshly constructed state, asked to send the empty raster,
  is unchanged, and the list of chunks sent is empty rather than the one degenerate chunk.
\<close>

theorem empty_raster_degenerate_chunk_counterexample:
  "sendRaster fresh [] = Some fresh
   \<and> sent (effects fresh) = []
   \<and> length (sent (effects fresh)) \<noteq> 1
   \<and> sent (effects fresh) \<noteq> [zero_raster]"
  by (simp add: sendRaster_def sendRasterChunk_def raster_length_def releaseRaster_def
      fresh_def SessionState_new_def)

section \<open>The claims about the server\<close>

text \<open>
  Claim C6. A new connection from a banned address is answered with
  \<open>disconnectKick("BANNED")\<close> and nothing else: the session registry is not touched, so
  the client is never handed to it, whatever session it would have asked for. A
  connection from any other address is passed to the registry with \<open>addClient\<close>, followed
  by the status update.
\<close>

theorem banned_connection_rejected_before_admission:
  "(isAddressBanned C (m_config s) (peerAddress socket) \<longrightarrow>
      newClient R C s socket = s\<lparr>m_log := m_log s @ [DisconnectKick (Client socket) ''BANNED'']\<rparr>
      \<and> m_sessions (newClient R C s socket) = m_sessions s)
   \<and> (\<not> isAddressBanned C (m_config s) (peerAddress socket) \<longrightarrow>
      m_sessions (newClient R C s socket) = addClient R (m_sessions s) (Client socket)
      \<and> m_log (newClient R C s socket) = m_log s @
          [NotifyStatus (totalUsers R (addClient R (m_sessions s) (Client socket)))
                        (sessionCount R (addClient R (m_sessions s) (Client socket)))])"
  by (simp add: newClient_def effect_def printStatusUpdate_def Let_def)

theorem banned_connection_rejected_before_admission_witness:
  "isAddressBanned sample_config (m_config server0) (peerAddress \<lparr>peerAddress = 7, descriptor = 3\<rparr>)
   \<and> newClient sample_registry sample_config server0 \<lparr>peerAddress = 7, descriptor = 3\<rparr>
       = server0\<lparr>m_log := [DisconnectKick (Client \<lparr>peerAddress = 7, descriptor = 3\<rparr>) ''BANNED'']\<rparr>
   \<and> \<not> isAddressBanned sample_config (m_config server0) (peerAddress \<lparr>peerAddress = 8, descriptor = 4\<rparr>)
   \<and> m_sessions (newClient sample_registry sample_config server0 \<lparr>peerAddress = 8, descriptor = 4\<rparr>)
       = (1, 0)
   \<and> m_log (newClient sample_registry sample_config server0 \<lparr>peerAddress = 8, descriptor = 4\<rparr>)
       = [NotifyStatus 1 0]"
proof -
  have b: "isAddressBanned sample_config (m_config server0)
      (peerAddress \<lparr>peerAddress = 7, descriptor = 3\<rparr>)"
    by (simp add: sample_config_def server0_def cfg0_def)
  have n: "\<not> isAddressBanned sample_config (m_config server0)
      (peerAddress \<lparr>peerAddress = 8, descriptor = 4\<rparr>)"
    by (simp add: sample_config_def server0_def cfg0_def)
  have r: "m_sessions server0 = (0, 0)" "m_log server0 = []"
    "addClient sample_registry (0, 0) c = (1, 0)"
    "totalUsers sample_registry (1, 0) = 1" "sessionCount sample_registry (1, 0) = 0" for c
    by (simp_all add: server0_def sample_registry_def)
  show ?thesis
    using banned_connection_rejected_before_admission
        [of sample_config server0 "\<lparr>peerAddress = 7, descriptor = 3\<rparr>" sample_registry]
      banned_connection_rejected_before_admission
        [of sample_config server0 "\<lparr>peerAddress = 8, descriptor = 4\<rparr>" sample_registry]
      b n r
    by simp
qed

text \<open>
  Claim C7. With auto-stop enabled and the server running, \<open>tryAutoStop\<close> brings the
  server to STOPPED exactly when the registry reports no session and no user (given that
  \<open>stopAll\<close> on a registry without users leaves it without users); otherwise it changes
  nothing. \<open>tryAutoStop\<close> changes the server only under that condition. Whenever \<open>stop\<close>
  or the slot of \<open>userDisconnected\<close> enters STOPPED, the registry reports no user and
  the signal \<open>serverStopped\<close> is the last thing emitted, once; in STOPPED both \<open>stop\<close>
  and \<open>tryAutoStop\<close> do nothing.
\<close>

theorem autostop_exactly_when_vacant:
  "(m_autoStop s \<and> m_state s = RUNNING
      \<and> (totalUsers R (m_sessions s) = 0 \<longrightarrow> totalUsers R (stopAll R (m_sessions s)) = 0) \<longrightarrow>
      (m_state (tryAutoStop R s) = STOPPED
         \<longleftrightarrow> sessionCount R (m_sessions s) = 0 \<and> totalUsers R (m_sessions s) = 0))
   \<and> (tryAutoStop R s \<noteq> s \<longrightarrow>
        m_state s = RUNNING \<and> m_autoStop s \<and> sessionCount R (m_sessions s) = 0
        \<and> totalUsers R (m_sessions s) = 0)
   \<and> (m_state s \<noteq> STOPPED \<and> m_state (stop R s) = STOPPED \<longrightarrow>
        totalUsers R (m_sessions (stop R s)) = 0
        \<and> (\<exists>es. m_log (stop R s) = m_log s @ es @ [ServerStopped] \<and> ServerStopped \<notin> set es))
   \<and> (m_state s \<noteq> STOPPED \<and> m_state (userDisconnected R s) = STOPPED \<longrightarrow>
        totalUsers R (m_sessions (userDisconnected R s)) = 0)
   \<and> (m_state s = STOPPED \<longrightarrow> stop R s = s \<and> tryAutoStop R s = s)"
  by (auto simp: tryAutoStop_def stop_def userDisconnected_def printStatusUpdate_def effect_def
      Let_def split: if_splits)

theorem autostop_exactly_when_vacant_witness:
  "m_autoStop server0 \<and> m_state server0 = RUNNING
   \<and> sessionCount sample_registry (m_sessions server0) = 0
   \<and> totalUsers sample_registry (m_sessions server0) = 0
   \<and> totalUsers sample_registry (stopAll sample_registry (m_sessions server0)) = 0
   \<and> m_state (tryAutoStop sample_registry server0) = STOPPED
   \<and> tryAutoStop sample_registry server0 \<noteq> server0
   \<and> m_state (stop sample_registry server0) = STOPPED
   \<and> totalUsers sample_registry (m_sessions (stop sample_registry server0)) = 0
   \<and> m_autoStop busy_server \<and> m_state busy_server = RUNNING
   \<and> totalUsers sample_registry (m_sessions busy_server) \<noteq> 0
   \<and> m_state (tryAutoStop sample_registry busy_server) \<noteq> STOPPED
   \<and> m_state stopping_server \<noteq> STOPPED
   \<and> m_state (userDisconnected sample_registry stopping_server) = STOPPED
   \<and> totalUsers sample_registry (m_sessions (userDisconnected sample_registry stopping_server)) = 0
   \<and> stop sample_registry (server0\<lparr>m_state := STOPPED\<rparr>) = server0\<lparr>m_state := STOPPED\<rparr>"
proof -
  have a: "m_autoStop server0" "m_state server0 = RUNNING"
    "sessionCount sample_registry (m_sessions server0) = 0"
    "totalUsers sample_registry (m_sessions server0) = 0"
    "totalUsers sample_registry (stopAll sample_registry (m_sessions server0)) = 0"
    by (simp_all add: server0_def sample_registry_def)
  have b: "m_autoStop busy_server" "m_state busy_server = RUNNING"
    "totalUsers sample_registry (m_sessions busy_server) \<noteq> 0"
    by (simp_all add: busy_server_def server0_def sample_registry_def)
  have c: "m_state stopping_server \<noteq> STOPPED"
    "m_state (userDisconnected sample_registry stopping_server) = STOPPED"
    by (simp_all add: stopping_server_def server0_def sample_registry_def userDisconnected_def
        printStatusUpdate_def effect_def stop_def Let_def)
  have d: "m_state (server0\<lparr>m_state := STOPPED\<rparr>) = STOPPED" by simp
  have e: "m_state (stop sample_registry server0) = STOPPED"
    by (simp add: server0_def sample_registry_def effect_def stop_def Let_def)
  show ?thesis
    using autostop_exactly_when_vacant [of server0 sample_registry]
      autostop_exactly_when_vacant [of busy_server sample_registry]
      autostop_exactly_when_vacant [of stopping_server sample_registry]
      autostop_exactly_when_vacant [of "server0\<lparr>m_state := STOPPED\<rparr>" sample_registry]
      a b c d e
    by auto
qed

subsection \<open>The settings of the server\<close>

lemma set_settings: "set settings = UNIV"
proof -
  have "k \<in> set settings" for k
    by (cases k) (simp_all add: settings_def)
  then show ?thesis by blast
qed

lemma updateSettings_filter:
  "updateSettings C Q request cfg ks =
   foldl (\<lambda>c k. setConfigString C c k (variantToString Q (the (request (key_name C k)))))
     cfg (filter (\<lambda>k. request (key_name C k) \<noteq> None) ks)"
  by (induction ks arbitrary: cfg) (auto split: option.splits)

lemma updateSettings_frame:
  assumes frame: "\<And>c k' v. k' \<noteq> k \<Longrightarrow>
      getConfigJson C (setConfigString C c k' v) k = getConfigJson C c k"
    and absent: "request (key_name C k) = None"
  shows "getConfigJson C (updateSettings C Q request cfg ks) k = getConfigJson C cfg k"
proof (induction ks arbitrary: cfg)
  case Nil
  then show ?case by simp
next
  case (Cons k' ks)
  show ?case
  proof (cases "request (key_name C k')")
    case None
    then show ?thesis using Cons.IH by simp
  next
    case (Some v)
    with absent have "k' \<noteq> k" by auto
    then show ?thesis using Some Cons.IH frame by simp
  qed
qed

lemma dom_settingsObject:
  "dom (settingsObject C cfg result ks) = dom result \<union> key_name C ` set ks"
  by (induction ks arbitrary: result) auto

lemma settingsObject_lookup:
  assumes "inj (key_name C)"
  shows "settingsObject C cfg result ks (key_name C k) =
     (if k \<in> set ks then Some (getConfigJson C cfg k) else result (key_name C k))"
  using assms by (induction ks arbitrary: result) (auto simp: inj_eq)

lemma inj_sample_key_name: "inj sample_key_name"
proof (rule injI)
  fix a b
  assume "sample_key_name a = sample_key_name b"
  then show "a = b" by (cases a; cases b; simp)
qed

text \<open>
  Claim C8. An Update on the \<open>server\<close> resource (empty sub-path) returns Ok. The
  configuration it leaves is the old one after \<open>setConfigString\<close> for exactly the keys of
  the table whose name the request contains, in the order of the table, and for no other
  key. Hence, when setting one key does not change what is read for another, every key
  whose name is absent from the request reads as before. The body is the settings object:
  its names are the names of all the keys, and (the names being distinct) each name
  carries the value read from the resulting configuration.
\<close>

theorem update_writes_only_requested_keys:
  "\<exists>obj cfg'. serverJsonApi C Q cfg Update [] request = (\<lparr>status = Ok, body = Object obj\<rparr>, cfg')
     \<and> cfg' = foldl (\<lambda>c k. setConfigString C c k (variantToString Q (the (request (key_name C k)))))
                 cfg (filter (\<lambda>k. request (key_name C k) \<noteq> None) settings)
     \<and> ((\<forall>c k k' v. k' \<noteq> k \<longrightarrow>
            getConfigJson C (setConfigString C c k' v) k = getConfigJson C c k) \<longrightarrow>
          (\<forall>k. request (key_name C k) = None \<longrightarrow> getConfigJson C cfg' k = getConfigJson C cfg k))
     \<and> dom obj = range (key_name C)
     \<and> (inj (key_name C) \<longrightarrow> (\<forall>k. obj (key_name C k) = Some (getConfigJson C cfg' k)))"
proof -
  let ?cfg' = "updateSettings C Q request cfg settings"
  let ?obj = "settingsObject C ?cfg' Map.empty settings"
  have "serverJsonApi C Q cfg Update [] request = (\<lparr>status = Ok, body = Object ?obj\<rparr>, ?cfg')"
    by (simp add: serverJsonApi_def Let_def)
  moreover have "(\<forall>c k k' v. k' \<noteq> k \<longrightarrow>
            getConfigJson C (setConfigString C c k' v) k = getConfigJson C c k) \<longrightarrow>
          (\<forall>k. request (key_name C k) = None \<longrightarrow> getConfigJson C ?cfg' k = getConfigJson C cfg k)"
    using updateSettings_frame [of _ C request Q cfg settings] by blast
  moreover have "dom ?obj = range (key_name C)"
    by (simp add: dom_settingsObject set_settings)
  moreover have "inj (key_name C) \<longrightarrow> (\<forall>k. ?obj (key_name C k) = Some (getConfigJson C ?cfg' k))"
    by (simp add: settingsObject_lookup set_settings)
  ultimately show ?thesis
    using updateSettings_filter [of C Q request cfg settings] by blast
qed

theorem update_writes_only_requested_keys_witness:
  "inj (key_name sample_config)
   \<and> title_request (key_name sample_config ClientTimeout) = None
   \<and> (\<exists>obj cfg'. serverJsonApi sample_config sample_qt cfg0 Update [] title_request
          = (\<lparr>status = Ok, body = Object obj\<rparr>, cfg')
        \<and> cfg' = cfg0\<lparr>entries := (entries cfg0)(ServerTitle := ''Hello'')\<rparr>
        \<and> getConfigJson sample_config cfg' ClientTimeout = getConfigJson sample_config cfg0 ClientTimeout
        \<and> obj (key_name sample_config ClientTimeout) = Some ''0''
        \<and> obj (key_name sample_config ServerTitle) = Some ''Hello'')"
proof -
  have frame: "\<forall>c k k' v. k' \<noteq> k \<longrightarrow>
      getConfigJson sample_config (setConfigString sample_config c k' v) k
        = getConfigJson sample_config c k"
    by (simp add: sample_config_def)
  have inj: "inj (key_name sample_config)"
    by (simp add: sample_config_def inj_sample_key_name)
  have absent: "title_request (key_name sample_config ClientTimeout) = None"
    by (simp add: sample_config_def title_request_def)
  have written: "foldl (\<lambda>c k. setConfigString sample_config c k
          (variantToString sample_qt (the (title_request (key_name sample_config k)))))
        cfg0 (filter (\<lambda>k. title_request (key_name sample_config k) \<noteq> None) settings)
      = cfg0\<lparr>entries := (entries cfg0)(ServerTitle := ''Hello'')\<rparr>"
    by (simp add: settings_def sample_config_def sample_qt_def title_request_def)
  have vals: "getConfigJson sample_config cfg0 ClientTimeout = ''0''"
    "getConfigJson sample_config (cfg0\<lparr>entries := (entries cfg0)(ServerTitle := ''Hello'')\<rparr>)
       ServerTitle = ''Hello''"
    by (simp_all add: sample_config_def cfg0_def)
  from update_writes_only_requested_keys [of sample_config sample_qt cfg0 title_request]
  obtain obj cfg' where
    r: "serverJsonApi sample_config sample_qt cfg0 Update [] title_request
          = (\<lparr>status = Ok, body = Object obj\<rparr>, cfg')"
    and w: "cfg' = foldl (\<lambda>c k. setConfigString sample_config c k
          (variantToString sample_qt (the (title_request (key_name sample_config k)))))
        cfg0 (filter (\<lambda>k. title_request (key_name sample_config k) \<noteq> None) settings)"
    and f: "(\<forall>c k k' v. k' \<noteq> k \<longrightarrow>
            getConfigJson sample_config (setConfigString sample_config c k' v) k
              = getConfigJson sample_config c k) \<longrightarrow>
          (\<forall>k. title_request (key_name sample_config k) = None \<longrightarrow>
             getConfigJson sample_config cfg' k = getConfigJson sample_config cfg0 k)"
    and o: "inj (key_name sample_config) \<longrightarrow>
          (\<forall>k. obj (key_name sample_config k) = Some (getConfigJson sample_config cfg' k))"
    by blast
  from f frame absent
  have kept: "getConfigJson sample_config cfg' ClientTimeout
      = getConfigJson sample_config cfg0 ClientTimeout"
    by blast
  from o inj have look: "obj (key_name sample_config k) = Some (getConfigJson sample_config cfg' k)" for k
    by blast
  from w written have cfg': "cfg' = cfg0\<lparr>entries := (entries cfg0)(ServerTitle := ''Hello'')\<rparr>"
    by simp
  have "obj (key_name sample_config ClientTimeout) = Some ''0''"
    using look [of ClientTimeout] kept vals by simp
  moreover have "obj (key_name sample_config ServerTitle) = Some ''Hello''"
    using look [of ServerTitle] cfg' vals by simp
  ultimately show ?thesis
    using inj absent r cfg' kept by blast
qed

subsection \<open>The ban list\<close>

text \<open>
  Claim C9, as amended. On a server whose configuration object is a database, a Create on
  \<open>banlist\<close> (empty sub-path) whose address is not valid or whose expiration does not
  parse returns BadRequest and leaves the configuration object, the ban store included,
  as it was. On a server whose configuration object is not a database the same request
  returns NotFound, again with nothing changed.
\<close>

theorem banlist_create_rejects_bad_input:
  "(isDatabase C cfg
      \<and> (hostAddress Q (requestString Q request ''ip'') = None
         \<or> dateTimeFromString Q (requestString Q request ''expiration'') = None) \<longrightarrow>
      status (fst (banlistJsonApi C Q cfg Create [] request)) = BadRequest
      \<and> snd (banlistJsonApi C Q cfg Create [] request) = cfg)
   \<and> (\<not> isDatabase C cfg \<longrightarrow>
      banlistJsonApi C Q cfg Create [] request = (JsonApiNotFound, cfg))"
  by (auto simp: banlistJsonApi_def JsonApiErrorResult_def Let_def split: option.splits)

theorem banlist_create_rejects_bad_input_witness:
  "isDatabase sample_config cfg0
   \<and> dateTimeFromString sample_qt (requestString sample_qt ban_request ''expiration'') = None
   \<and> status (fst (banlistJsonApi sample_config sample_qt cfg0 Create [] ban_request)) = BadRequest
   \<and> snd (banlistJsonApi sample_config sample_qt cfg0 Create [] ban_request) = cfg0
   \<and> \<not> isDatabase sample_config (cfg0\<lparr>database := False\<rparr>)
   \<and> banlistJsonApi sample_config sample_qt (cfg0\<lparr>database := False\<rparr>) Create [] ban_request
       = (JsonApiNotFound, cfg0\<lparr>database := False\<rparr>)"
proof -
  have d: "isDatabase sample_config cfg0" "\<not> isDatabase sample_config (cfg0\<lparr>database := False\<rparr>)"
    by (simp_all add: sample_config_def cfg0_def)
  have e: "dateTimeFromString sample_qt (requestString sample_qt ban_request ''expiration'') = None"
    by (simp add: sample_qt_def requestString_def ban_request_def)
  show ?thesis
    using banlist_create_rejects_bad_input [of sample_config cfg0 sample_qt ban_request]
      banlist_create_rejects_bad_input
        [of sample_config "cfg0\<lparr>database := False\<rparr>" sample_qt ban_request]
      d e
    by simp
qed

text \<open>
  Claim C9 as stated fails: with a configuration object that is not a database, a Create
  whose expiration does not parse is answered with NotFound, not with BadRequest.
\<close>

theorem banlist_create_without_database_counterexample:
  "dateTimeFromString sample_qt (requestString sample_qt ban_request ''expiration'') = None
   \<and> status (fst (banlistJsonApi sample_config sample_qt (cfg0\<lparr>database := False\<rparr>) Create []
        ban_request)) = NotFound
   \<and> status (fst (banlistJsonApi sample_config sample_qt (cfg0\<lparr>database := False\<rparr>) Create []
        ban_request)) \<noteq> BadRequest"
  by (simp add: banlistJsonApi_def sample_config_def sample_qt_def cfg0_def requestString_def
      JsonApiNotFound_def ban_request_def)

end
